theory Spec2Isabelle
  imports Main "HOL-Library.AList" "HOL-Library.Multiset"
begin

section \<open>Python values used by \<open>eth_top_monitor.py\<close>\<close>

text \<open>
  Addresses, cell texts and other data strings are HOL strings, one \<open>char\<close> per code
  point (text outside Latin-1 is outside the model). The message texts handed to
  Telegram contain symbols beyond Latin-1, and the program measures them with
  \<open>len\<close>, so a message is a list of code points.
\<close>

type_synonym ustr = "nat list"

definition u :: "string \<Rightarrow> ustr" where
  "u s = map of_char s"

text \<open>Exceptions are values. \<open>str_exn\<close> is \<open>str(e)\<close>.\<close>

datatype exn =
    ValueError string
  | AttributeError string
  | RequestException string
  | OSError string

fun str_exn :: "exn \<Rightarrow> string" where
  "str_exn (ValueError m) = m"
| "str_exn (AttributeError m) = m"
| "str_exn (RequestException m) = m"
| "str_exn (OSError m) = m"

text \<open>
  \<open>str.lower()\<close>, character by character, as Python defines it on Latin-1: the
  letters A to Z and the accented capitals U+00C0 to U+00DE (the multiplication sign
  U+00D7 apart) move up by 32; every other character is left as it is.
\<close>

definition lower_char :: "char \<Rightarrow> char" where
  "lower_char c =
     (let n = (of_char c :: nat)
      in if (65 \<le> n \<and> n \<le> 90) \<or> (192 \<le> n \<and> n \<le> 222 \<and> n \<noteq> 215)
         then char_of (n + 32) else c)"

definition lower :: "string \<Rightarrow> string" where
  "lower s = map lower_char s"

text \<open>\<open>needle in hay\<close> on strings.\<close>

fun contains :: "string \<Rightarrow> string \<Rightarrow> bool" where
  "contains needle [] = (needle = [])"
| "contains needle (c # cs) =
     (take (length needle) (c # cs) = needle \<or> contains needle cs)"

text \<open>Decimal rendering of a Python int, and the format \<open>{n:3d}\<close>.\<close>

definition digit_char :: "nat \<Rightarrow> char" where
  "digit_char d = char_of (48 + d)"

fun str_nat :: "nat \<Rightarrow> string" where
  "str_nat n = (if n < 10 then [digit_char n] else str_nat (n div 10) @ [digit_char (n mod 10)])"

declare str_nat.simps [simp del]

definition str_int :: "int \<Rightarrow> string" where
  "str_int i = (if i < 0 then CHR ''-'' # str_nat (nat (- i)) else str_nat (nat i))"

definition fmt_3d :: "int \<Rightarrow> string" where
  "fmt_3d i = replicate (3 - length (str_int i)) CHR '' '' @ str_int i"

text \<open>
  \<open>ch.isdigit()\<close> on Latin-1 holds for the decimal digits and for the superscripts
  U+00B2, U+00B3 and U+00B9; \<open>int(s)\<close> on a string of such characters accepts the
  decimal digits only and raises ValueError otherwise (\<open>None\<close>).
\<close>

definition is_decimal :: "char \<Rightarrow> bool" where
  "is_decimal c = (let n = (of_char c :: nat) in 48 \<le> n \<and> n \<le> 57)"

definition isdigit :: "char \<Rightarrow> bool" where
  "isdigit c = (let n = (of_char c :: nat) in is_decimal c \<or> n = 178 \<or> n = 179 \<or> n = 185)"

definition py_int :: "string \<Rightarrow> int option" where
  "py_int s =
     (if s \<noteq> [] \<and> list_all is_decimal s
      then Some (fold (\<lambda>c acc. 10 * acc + (int (of_char c) - 48)) s 0)
      else None)"

text \<open>\<open>ch.isspace()\<close> on Latin-1, \<open>s.replace(old, new)\<close> and \<open>s.strip().split()[0]\<close>
  (\<open>None\<close> is its IndexError).\<close>

definition isspace :: "char \<Rightarrow> bool" where
  "isspace c =
     (let n = (of_char c :: nat)
      in (9 \<le> n \<and> n \<le> 13) \<or> (28 \<le> n \<and> n \<le> 32) \<or> n = 133 \<or> n = 160)"

fun replace :: "string \<Rightarrow> string \<Rightarrow> string \<Rightarrow> string" where
  "replace old new [] = []"
| "replace old new (c # cs) =
     (if old \<noteq> [] \<and> take (length old) (c # cs) = old
      then new @ replace old new (drop (length old - 1) cs)
      else c # replace old new cs)"

definition first_token :: "string \<Rightarrow> string option" where
  "first_token s =
     (let t = takeWhile (\<lambda>c. \<not> isspace c) (dropWhile isspace s)
      in if t = [] then None else Some t)"

section \<open>Data model\<close>

text \<open>
  The dataclass \<open>Holder\<close>. \<open>balance_eth\<close> is a Python float; no operation of the
  program computes with it, so its type is the parameter \<open>'f\<close>.
  \<open>address\<close> is declared \<open>str\<close>, but \<open>fetch_top_with_bitquery\<close> stores what
  \<open>item.get("address", {}).get("address")\<close> returns, which is \<open>None\<close> when the key is
  missing: the field is an option.
\<close>

record 'f Holder =
  rank :: int
  address :: "string option"
  balance_eth :: 'f
  balance_readable :: string
  percent_of_total :: "'f option"
  label :: "string option"

text \<open>
  One value of the snapshot map, \<open>{"rank": .., "balance_eth": .., "readable": ..}\<close>.
  A Python dict is an association list with pairwise distinct keys, in insertion
  order; \<open>d[k] = v\<close> is \<open>AList.update k v d\<close> and \<open>d[k]\<close> is \<open>map_of d k\<close>.
\<close>

record 'f entry =
  e_rank :: int
  e_balance_eth :: 'f
  e_readable :: string

type_synonym 'f hmap = "(string \<times> 'f entry) list"

record 'f snapshot =
  timestamp :: int
  holders_map :: "'f hmap"

definition dict_keys :: "('k \<times> 'v) list \<Rightarrow> 'k list" where
  "dict_keys d = map fst d"

text \<open>
  Python sets of addresses are duplicate-free lists: \<open>set(xs)\<close>, \<open>a & b\<close>, \<open>a - b\<close>.
  The order in which a \<open>for\<close> loop visits a set is not specified by Python; it is the
  parameter \<open>it\<close> of \<open>compare_snapshots\<close>, which maps the elements of a set to the
  order of the visit.
\<close>

definition py_set :: "'a list \<Rightarrow> 'a list" where
  "py_set xs = remdups xs"

definition set_and :: "'a list \<Rightarrow> 'a list \<Rightarrow> 'a list" where
  "set_and a b = filter (\<lambda>x. x \<in> set b) a"

definition set_minus :: "'a list \<Rightarrow> 'a list \<Rightarrow> 'a list" where
  "set_minus a b = filter (\<lambda>x. x \<notin> set b) a"

section \<open>Snapshot map and diff\<close>

text \<open>
  \<open>holders_to_map\<close>: the dict comprehension inserts the holders in list order, a later
  holder with the same lower-cased address replacing the value of an earlier one.
  \<open>h.address.lower()\<close> raises AttributeError when the address is \<open>None\<close>.
\<close>

fun holders_to_map_from :: "'f hmap \<Rightarrow> 'f Holder list \<Rightarrow> exn + 'f hmap" where
  "holders_to_map_from m [] = Inr m"
| "holders_to_map_from m (h # hs) =
     (case address h of
        None \<Rightarrow> Inl (AttributeError ''NoneType object has no attribute lower'')
      | Some a \<Rightarrow>
          holders_to_map_from
            (AList.update (lower a)
               \<lparr>e_rank = rank h, e_balance_eth = balance_eth h, e_readable = balance_readable h\<rparr> m)
            hs)"

definition holders_to_map :: "'f Holder list \<Rightarrow> exn + 'f hmap" where
  "holders_to_map holders = holders_to_map_from [] holders"

text \<open>
  \<open>compare_snapshots\<close>. The three loops visit \<open>new_addrs & old_addrs\<close>,
  \<open>new_addrs - old_addrs\<close> and \<open>old_addrs - new_addrs\<close>; a loop body that appends one
  tuple or nothing is a list of zero or one element, and the loop is their concatenation.
  The \<open>None\<close> branches are the KeyError of \<open>old[addr]\<close> and \<open>new[addr]\<close>, which the
  loops never reach when \<open>it\<close> only reorders.
\<close>

definition compare_snapshots ::
  "(string list \<Rightarrow> string list) \<Rightarrow> 'f hmap \<Rightarrow> 'f hmap \<Rightarrow>
     (string \<times> int \<times> int) list \<times> (string \<times> int) list \<times> (string \<times> int) list" where
  "compare_snapshots it old new =
     (let old_addrs = py_set (dict_keys old);
          new_addrs = py_set (dict_keys new);
          rank_changes = concat (map (\<lambda>addr.
              case (map_of old addr, map_of new addr) of
                (Some eo, Some en) \<Rightarrow>
                  if e_rank eo \<noteq> e_rank en then [(addr, e_rank eo, e_rank en)] else []
              | _ \<Rightarrow> [])
            (it (set_and new_addrs old_addrs)));
          new_entries = concat (map (\<lambda>addr.
              case map_of new addr of Some en \<Rightarrow> [(addr, e_rank en)] | None \<Rightarrow> [])
            (it (set_minus new_addrs old_addrs)));
          removed = concat (map (\<lambda>addr.
              case map_of old addr of Some eo \<Rightarrow> [(addr, e_rank eo)] | None \<Rightarrow> [])
            (it (set_minus old_addrs new_addrs)))
      in (rank_changes, new_entries, removed))"

section \<open>Library functions and inputs that the program does not define\<close>

text \<open>
  \<open>py_float\<close> is \<open>float(s)\<close> (\<open>None\<close> when it raises), \<open>str_float\<close> is \<open>str(x)\<close> of a
  float, \<open>json_dump\<close> is the text that \<open>json.dump(snapshot, f, indent=2,
  ensure_ascii=False)\<close> writes. \<open>json_load\<close> reads the snapshot file back: \<open>None\<close>
  when opening or \<open>json.load\<close> raises, otherwise the loaded dict, which the program
  only asks for its key \<open>"holders_map"\<close> (\<open>Some None\<close> when the key is absent).
  \<open>set_order\<close> is the order in which a loop visits a set.
\<close>

record 'f pylib =
  py_float :: "string \<Rightarrow> 'f option"
  str_float :: "'f \<Rightarrow> string"
  json_dump :: "'f snapshot \<Rightarrow> string"
  json_load :: "string \<Rightarrow> 'f hmap option option"
  set_order :: "string list \<Rightarrow> string list"

section \<open>Etherscan adapter\<close>

text \<open>
  What BeautifulSoup gives for a page: its tables in document order, each with the
  stripped texts of its \<open>th\<close> elements and, for every \<open>tr\<close>, the cells found by
  \<open>tr.find_all(["td","th"])\<close>. A cell is its \<open>get_text(strip=True)\<close> and the stripped
  text of its first \<open>a\<close> element, if it has one.
\<close>

record cell =
  cell_text :: string
  cell_anchor :: "string option"

record table =
  th_texts :: "string list"
  tr_cells :: "cell list list"

type_synonym soup = "table list"

text \<open>
  The body of the loop over \<open>table.find_all("tr")\<close>: \<open>None\<close> is a row left out, by
  one of the two \<open>continue\<close> statements or by an exception caught at line 121. A
  percentage that is not a float does not leave the row out.
\<close>

definition parse_row :: "'f pylib \<Rightarrow> cell list \<Rightarrow> 'f Holder option" where
  "parse_row lib cols =
     (case cols of
        c0 # c1 # c2 # rest \<Rightarrow>
          (let rank_text = cell_text c0;
               rank_digits = filter isdigit rank_text
           in if rank_digits = [] then None
              else case py_int rank_digits of
                None \<Rightarrow> None
              | Some r \<Rightarrow>
                 (let addr = (case cell_anchor c1 of Some a \<Rightarrow> a | None \<Rightarrow> cell_text c1);
                      bal_text = cell_text c2
                  in case first_token (replace '','' [] (replace ''ETH'' [] bal_text)) of
                       None \<Rightarrow> None
                     | Some bal_num_str \<Rightarrow>
                        (case py_float lib bal_num_str of
                           None \<Rightarrow> None
                         | Some bal_num \<Rightarrow>
                             Some \<lparr>rank = r, address = Some addr, balance_eth = bal_num,
                                   balance_readable = bal_text,
                                   percent_of_total =
                                     (case rest of
                                        [] \<Rightarrow> None
                                      | c3 # _ \<Rightarrow>
                                          py_float lib
                                            (replace '','' [] (replace ''%'' [] (cell_text c3)))),
                                   label = None\<rparr>)))
      | _ \<Rightarrow> None)"

definition is_accounts_table :: "table \<Rightarrow> bool" where
  "is_accounts_table t =
     (let headers = map lower (th_texts t)
      in list_ex (contains ''rank'') headers \<and> list_ex (contains ''address'') headers)"

definition parse_etherscan_accounts_page :: "'f pylib \<Rightarrow> soup \<Rightarrow> exn + 'f Holder list" where
  "parse_etherscan_accounts_page lib html =
     (case find is_accounts_table html of
        None \<Rightarrow> Inl (ValueError ''Top accounts table not found on etherscan page'')
      | Some t \<Rightarrow>
          (let rows = List.map_filter (parse_row lib) (tr_cells t);
               rows_sorted = take 100 (sort_key rank rows)
           in Inr rows_sorted))"

text \<open>
  The loop \<open>for h in parsed\<close> of \<open>fetch_top_from_etherscan\<close> (lines 154 to 158): it
  stops at 100 holders and appends a parsed holder when no holder collected so far has
  the same address, compared with \<open>==\<close> on the addresses as parsed.
\<close>

fun merge_page :: "'f Holder list \<Rightarrow> 'f Holder list \<Rightarrow> 'f Holder list" where
  "merge_page holders [] = holders"
| "merge_page holders (h # hs) =
     (if length holders \<ge> 100 then holders
      else if \<not> list_ex (\<lambda>other. address other = address h) holders
           then merge_page (holders @ [h]) hs
           else merge_page holders hs)"

text \<open>
  The \<open>while\<close> loop. Lines 135 to 152 obtain \<open>page_html\<close> from the network; their
  outcome for page \<open>page\<close> is the input \<open>get page\<close>: the exception that the
  unguarded request of line 151 raises, or the parsed document. An exception of the
  request or of the parser leaves the function.
\<close>

function fetch_loop ::
  "'f pylib \<Rightarrow> (nat \<Rightarrow> exn + soup) \<Rightarrow> nat \<Rightarrow> nat \<Rightarrow> 'f Holder list \<Rightarrow> exn + 'f Holder list" where
  "fetch_loop lib get pages_needed page holders =
     (if length holders < 100 \<and> page \<le> pages_needed then
        (case get page of
           Inl e \<Rightarrow> Inl e
         | Inr page_html \<Rightarrow>
            (case parse_etherscan_accounts_page lib page_html of
               Inl e \<Rightarrow> Inl e
             | Inr parsed \<Rightarrow>
                 fetch_loop lib get pages_needed (page + 1) (merge_page holders parsed)))
      else Inr holders)"
  by pat_completeness auto
termination
  by (relation "measure (\<lambda>(lib, get, pages_needed, page, holders). Suc pages_needed - page)") auto

declare fetch_loop.simps [simp del]

definition fetch_top_from_etherscan ::
  "'f pylib \<Rightarrow> (nat \<Rightarrow> exn + soup) \<Rightarrow> nat \<Rightarrow> exn + 'f Holder list" where
  "fetch_top_from_etherscan lib get pages_needed =
     (case fetch_loop lib get pages_needed 1 [] of
        Inl e \<Rightarrow> Inl e
      | Inr holders \<Rightarrow> Inr (take 100 holders))"

section \<open>Bitquery adapter\<close>

text \<open>
  \<open>reply limit\<close> is the outcome of the request with that limit, of
  \<open>raise_for_status\<close>, of \<open>r.json()\<close> and of reading \<open>data.ethereum.balances\<close>: the
  exception one of them raises, or the items in the order of the response, each with
  its address (\<open>None\<close> when absent) and its balance as a float.
\<close>

definition fetch_top_with_bitquery ::
  "string \<Rightarrow> 'f pylib \<Rightarrow> (nat \<Rightarrow> exn + (string option \<times> 'f) list) \<Rightarrow> nat \<Rightarrow>
     exn + 'f Holder list" where
  "fetch_top_with_bitquery api_key lib reply limit =
     (if api_key = [] then Inl (ValueError ''No BITQUERY_API_KEY configured'')
      else case reply limit of
        Inl e \<Rightarrow> Inl e
      | Inr items \<Rightarrow>
          Inr (map (\<lambda>(i, addr, bal).
                 \<lparr>rank = int i, address = addr, balance_eth = bal,
                  balance_readable = str_float lib bal @ '' ETH'',
                  percent_of_total = None, label = None\<rparr>)
               (List.enumerate 1 items)))"

section \<open>Configuration, world and inputs of a cycle\<close>

text \<open>The module-level settings that \<open>job\<close> reads.\<close>

record config =
  BITQUERY_API_KEY :: string
  SEND_FULL_EVERY :: int

text \<open>
  What a cycle can change: the counter \<open>state["polls_done"]\<close> (\<open>main\<close> creates the
  dict with this key), the text of the snapshot file (\<open>None\<close> when the file does not
  exist), the texts handed to \<open>requests.post\<close> for Telegram, oldest first, and the
  records given to the logger.
\<close>

datatype level = DEBUG | INFO | WARNING | ERROR

record world =
  polls_done :: int
  snapshot_file :: "string option"
  outbox :: "ustr list"
  logged :: "(level \<times> string) list"

definition log_to :: "level \<Rightarrow> string \<Rightarrow> world \<Rightarrow> world" where
  "log_to lv m w = w\<lparr>logged := logged w @ [(lv, m)]\<rparr>"

text \<open>
  The answer of the network to a Telegram request: \<open>requests.post\<close> raises, or it
  returns a response with a status code and a body. A failure while the snapshot file
  is written: \<open>open\<close> raises, or the writing raises after some characters.
\<close>

datatype post_reply = Raised exn | Response nat string

datatype io_fault = NoFault | OpenFails | WriteFailsAfter nat

text \<open>
  The inputs of one cycle. \<open>telegram_reply n\<close> answers the request made when \<open>n\<close>
  requests were made before it.
\<close>

record 'f env =
  etherscan_page :: "nat \<Rightarrow> exn + soup"
  bitquery_reply :: "nat \<Rightarrow> exn + (string option \<times> 'f) list"
  telegram_reply :: "nat \<Rightarrow> post_reply"
  save_fault :: io_fault
  clock :: int

section \<open>Telegram and the snapshot store\<close>

text \<open>
  \<open>send_telegram\<close>: the request is made outside the \<open>try\<close>, so what it raises leaves
  the function (\<open>Some e\<close>); \<open>raise_for_status\<close> raises for a status from 400 to 599,
  inside the \<open>try\<close>, and the handler logs it.
\<close>

definition send_telegram :: "(nat \<Rightarrow> post_reply) \<Rightarrow> ustr \<Rightarrow> world \<Rightarrow> exn option \<times> world" where
  "send_telegram reply txt w =
     (let w1 = w\<lparr>outbox := outbox w @ [txt]\<rparr>
      in case reply (length (outbox w)) of
           Raised e \<Rightarrow> (Some e, w1)
         | Response status_code body \<Rightarrow>
             if 400 \<le> status_code \<and> status_code < 600
             then (None, log_to ERROR
                     (''Telegram send failed: '' @ str_nat status_code @ '' '' @ body) w1)
             else (None, log_to DEBUG ''Telegram sent'' w1))"

text \<open>A loop \<open>for ch in chunks: send_telegram(ch)\<close>: the first exception ends it.\<close>

fun send_each :: "(nat \<Rightarrow> post_reply) \<Rightarrow> ustr list \<Rightarrow> world \<Rightarrow> exn option \<times> world" where
  "send_each reply [] w = (None, w)"
| "send_each reply (t # ts) w =
     (case send_telegram reply t w of
        (Some e, w1) \<Rightarrow> (Some e, w1)
      | (None, w1) \<Rightarrow> send_each reply ts w1)"

text \<open>
  \<open>load_snapshot\<close> returns the loaded dict, given here by its \<open>"holders_map"\<close> entry;
  the empty dict of a missing or unreadable file has no such entry.
\<close>

definition load_snapshot :: "'f pylib \<Rightarrow> world \<Rightarrow> 'f hmap option \<times> world" where
  "load_snapshot lib w =
     (case snapshot_file w of
        None \<Rightarrow> (None, w)
      | Some content \<Rightarrow>
          (case json_load lib content of
             None \<Rightarrow> (None, log_to ERROR ''Failed to read snapshot file'' w)
           | Some d \<Rightarrow> (d, w)))"

text \<open>
  \<open>save_snapshot\<close>: \<open>open(SNAPSHOT_FILE, "w")\<close> empties the file before anything is
  written, \<open>json.dump\<close> then writes the document piece by piece, and the \<open>with\<close>
  block closes the file when an exception passes through it. The handler logs the
  exception and the function returns.
\<close>

definition save_snapshot :: "'f pylib \<Rightarrow> io_fault \<Rightarrow> 'f snapshot \<Rightarrow> world \<Rightarrow> world" where
  "save_snapshot lib fault snapshot w =
     (case fault of
        NoFault \<Rightarrow> w\<lparr>snapshot_file := Some (json_dump lib snapshot)\<rparr>
      | OpenFails \<Rightarrow> log_to ERROR ''Failed to save snapshot file'' w
      | WriteFailsAfter n \<Rightarrow>
          log_to ERROR ''Failed to save snapshot file''
            (w\<lparr>snapshot_file := Some (take n (json_dump lib snapshot))\<rparr>))"

section \<open>Report texts\<close>

definition join_nl :: "ustr list \<Rightarrow> ustr" where
  "join_nl ls = (case ls of [] \<Rightarrow> [] | l # rest \<Rightarrow> l @ concat (map (\<lambda>x. 10 # x) rest))"

text \<open>\<open>[t[i:i+n] for i in range(0, len(t), n)]\<close>, for a positive \<open>n\<close>.\<close>

function chunks :: "nat \<Rightarrow> 'a list \<Rightarrow> 'a list list" where
  "chunks n t = (if n = 0 \<or> t = [] then [] else take n t # chunks n (drop n t))"
  by pat_completeness auto
termination
  by (relation "measure (\<lambda>(n, t). length t)") auto

declare chunks.simps [simp del]

definition py_str_opt :: "string option \<Rightarrow> string" where
  "py_str_opt x = (case x of None \<Rightarrow> ''None'' | Some s \<Rightarrow> s)"

definition format_holder_line :: "int \<Rightarrow> string option \<Rightarrow> string \<Rightarrow> string option \<Rightarrow> ustr" where
  "format_holder_line rnk addr readable lbl_opt =
     (let lbl = (case lbl_opt of
                   None \<Rightarrow> []
                 | Some l \<Rightarrow> if l = [] then [] else u '' '' @ [8212] @ u '' '' @ u l)
      in u ''<b>'' @ u (fmt_3d rnk) @ u ''.</b> <code>'' @ u (py_str_opt addr) @ u ''</code> ''
         @ [8212] @ u '' '' @ u readable @ lbl)"

text \<open>
  The three parts of the change report (lines 239 to 252). \<open>sorted\<close> is stable, as
  \<open>sort_key\<close> is; the key of a rank change is \<open>x[1] - x[2]\<close>, the old rank minus the
  new one.
\<close>

definition membership_line :: "string \<times> int \<Rightarrow> ustr" where
  "membership_line x = u (fmt_3d (snd x)) @ u ''. <code>'' @ u (fst x) @ u ''</code>''"

definition rank_change_key :: "string \<times> int \<times> int \<Rightarrow> int" where
  "rank_change_key x = fst (snd x) - snd (snd x)"

definition rank_change_line :: "string \<times> int \<times> int \<Rightarrow> ustr" where
  "rank_change_line x =
     (let addr = fst x; orank = fst (snd x); nrank = snd (snd x);
          delta = nrank - orank;
          arrow = (if delta < 0 then 8593 else 8595)
      in u (fmt_3d nrank) @ u ''. <code>'' @ u addr @ u ''</code> '' @ [arrow] @ u '' (''
         @ u (str_int orank) @ u '' '' @ [8594] @ u '' '' @ u (str_int nrank) @ u '')'')"

definition rank_changes_emitted :: "(string \<times> int \<times> int) list \<Rightarrow> (string \<times> int \<times> int) list" where
  "rank_changes_emitted rank_changes = sort_key rank_change_key rank_changes"

definition change_messages ::
  "(string \<times> int \<times> int) list \<Rightarrow> (string \<times> int) list \<Rightarrow> (string \<times> int) list \<Rightarrow> ustr list" where
  "change_messages rank_changes new_entries removed =
     [[128276] @ u '' <b>Top-100 ETH list changed</b>'' @ [10]]
     @ (if new_entries \<noteq> []
        then (u ''<b>'' @ [10133] @ u '' New in top-100:</b>'')
             # map membership_line (sort_key snd new_entries)
        else [])
     @ (if removed \<noteq> []
        then ([10] @ u ''<b>'' @ [10134] @ u '' Removed from top-100:</b>'')
             # map membership_line (sort_key snd removed)
        else [])
     @ (if rank_changes \<noteq> []
        then ([10] @ u ''<b>'' @ [128256] @ u '' Rank changes:</b>'')
             # map rank_change_line (rank_changes_emitted rank_changes)
        else [])"

section \<open>The cycle\<close>

text \<open>
  Lines 218 to 220: the primary adapter with the plausibility check that \<open>job\<close>
  applies to its result.
\<close>

definition etherscan_attempt :: "'f pylib \<Rightarrow> 'f env \<Rightarrow> exn + 'f Holder list" where
  "etherscan_attempt lib env =
     (case fetch_top_from_etherscan lib (etherscan_page env) 4 of
        Inl e \<Rightarrow> Inl e
      | Inr holders \<Rightarrow>
          if holders = [] \<or> length holders < 10
          then Inl (ValueError ''Etherscan returned suspiciously few holders'')
          else Inr holders)"

text \<open>
  Lines 216 to 227, the acquisition: \<open>Inl e\<close> when the exception \<open>e\<close> leaves the inner
  \<open>try\<close> statement, otherwise the value given to \<open>holders\<close>.
\<close>

definition acquire ::
  "config \<Rightarrow> 'f pylib \<Rightarrow> 'f env \<Rightarrow> world \<Rightarrow> (exn + 'f Holder list) \<times> world" where
  "acquire cfg lib env w =
     (let w1 = log_to INFO ''Fetching top holders from Etherscan...'' w
      in case etherscan_attempt lib env of
           Inr holders \<Rightarrow> (Inr holders, w1)
         | Inl e \<Rightarrow>
            (let w2 = log_to WARNING (''Etherscan fetch failed: '' @ str_exn e) w1
             in if BITQUERY_API_KEY cfg \<noteq> []
                then (fetch_top_with_bitquery (BITQUERY_API_KEY cfg) lib (bitquery_reply env) 100,
                      log_to INFO ''Trying Bitquery as backup...'' w2)
                else (Inl e, w2)))"

text \<open>Lines 235 to 262: the change report, or the log record that nothing changed.\<close>

definition report_changes ::
  "(nat \<Rightarrow> post_reply) \<Rightarrow>
   (string \<times> int \<times> int) list \<times> (string \<times> int) list \<times> (string \<times> int) list \<Rightarrow>
   world \<Rightarrow> exn option \<times> world" where
  "report_changes reply d w =
     (case d of (rank_changes, new_entries, removed) \<Rightarrow>
        if rank_changes \<noteq> [] \<or> new_entries \<noteq> [] \<or> removed \<noteq> [] then
          (let full_text = join_nl (change_messages rank_changes new_entries removed)
           in if length full_text > 3800
              then send_each reply (chunks 3500 full_text) w
              else send_telegram reply full_text w)
        else (None, log_to INFO ''No changes in top-100'' w))"

text \<open>Lines 266 to 272: the chunks of the full listing.\<close>

definition full_listing :: "'f Holder list \<Rightarrow> ustr list" where
  "full_listing holders =
     (let header = u ''<b>'' @ [128203] @ u '' Top 100 ETH holders (snapshot)</b>'' @ [10];
          lines = header # map (\<lambda>h. format_holder_line (rank h) (address h)
                                       (balance_readable h) (label h)) holders
      in chunks 3800 (join_nl lines))"

text \<open>
  Lines 216 to 262, the first part of the \<open>try\<close> block: acquisition, the new map,
  the old map, the diff and the change report. \<open>Inl e\<close>: the exception \<open>e\<close> left this
  part.
\<close>

definition job_report ::
  "config \<Rightarrow> 'f pylib \<Rightarrow> 'f env \<Rightarrow> world \<Rightarrow> (exn + 'f Holder list \<times> 'f hmap) \<times> world" where
  "job_report cfg lib env w =
     (case acquire cfg lib env w of
        (Inl e, w1) \<Rightarrow> (Inl e, w1)
      | (Inr holders, w1) \<Rightarrow>
         (case holders_to_map holders of
            Inl e \<Rightarrow> (Inl e, w1)
          | Inr new_map \<Rightarrow>
             (case load_snapshot lib w1 of (old_snapshot, w2) \<Rightarrow>
                (let old_map = (case old_snapshot of None \<Rightarrow> [] | Some m \<Rightarrow> m)
                 in case report_changes (telegram_reply env)
                           (compare_snapshots (set_order lib) old_map new_map) w2 of
                      (Some e, w3) \<Rightarrow> (Inl e, w3)
                    | (None, w3) \<Rightarrow> (Inr (holders, new_map), w3)))))"

text \<open>
  Lines 264 to 275, the rest of the \<open>try\<close> block: the counter, the full listing when
  the counter is a multiple of \<open>SEND_FULL_EVERY\<close>, and the save.
\<close>

definition job_finish ::
  "config \<Rightarrow> 'f pylib \<Rightarrow> 'f env \<Rightarrow> 'f Holder list \<Rightarrow> 'f hmap \<Rightarrow> world \<Rightarrow> exn option \<times> world" where
  "job_finish cfg lib env holders new_map w =
     (let w1 = w\<lparr>polls_done := polls_done w + 1\<rparr>
      in case (if SEND_FULL_EVERY cfg > 0 \<and> polls_done w1 mod SEND_FULL_EVERY cfg = 0
               then send_each (telegram_reply env) (full_listing holders) w1
               else (None, w1)) of
           (Some e, w2) \<Rightarrow> (Some e, w2)
         | (None, w2) \<Rightarrow>
             (None, save_snapshot lib (save_fault env)
                      \<lparr>timestamp = clock env, holders_map = new_map\<rparr> w2))"

definition job_try :: "config \<Rightarrow> 'f pylib \<Rightarrow> 'f env \<Rightarrow> world \<Rightarrow> exn option \<times> world" where
  "job_try cfg lib env w =
     (case job_report cfg lib env w of
        (Inl e, w1) \<Rightarrow> (Some e, w1)
      | (Inr (holders, new_map), w1) \<Rightarrow> job_finish cfg lib env holders new_map w1)"

text \<open>
  \<open>job\<close>: the handler of line 277 logs the exception and sends the error message;
  \<open>Some e\<close> in the result is an exception that leaves \<open>job\<close>, which only the
  handler's own \<open>send_telegram\<close> can raise.
\<close>

definition error_text :: "exn \<Rightarrow> ustr" where
  "error_text e = [9888, 65039] @ u '' <b>eth_top_monitor error</b>'' @ [10] @ u (str_exn e)"

definition job :: "config \<Rightarrow> 'f pylib \<Rightarrow> 'f env \<Rightarrow> world \<Rightarrow> exn option \<times> world" where
  "job cfg lib env w =
     (case job_try cfg lib env w of
        (None, w1) \<Rightarrow> (None, w1)
      | (Some e, w1) \<Rightarrow>
          send_telegram (telegram_reply env) (error_text e)
            (log_to ERROR (''Job failed: '' @ str_exn e) w1))"

section \<open>Example inputs\<close>

text \<open>
  The scenario of the specification: the old snapshot \<open>{A:1, B:2, C:3}\<close> and the new
  snapshot \<open>{B:1, A:2, D:3}\<close>. The balances play no part and have the type \<open>unit\<close>.
\<close>

definition entry_at :: "int \<Rightarrow> unit entry" where
  "entry_at r = \<lparr>e_rank = r, e_balance_eth = (), e_readable = ''1 ETH''\<rparr>"

definition scenario_old :: "unit hmap" where
  "scenario_old = [(''A'', entry_at 1), (''B'', entry_at 2), (''C'', entry_at 3)]"

definition scenario_new :: "unit hmap" where
  "scenario_new = [(''B'', entry_at 1), (''A'', entry_at 2), (''D'', entry_at 3)]"

section \<open>Properties of the diff\<close>

lemma map_of_keys: "(\<exists>e. map_of d a = Some e) = (a \<in> set (dict_keys d))"
  by (metis dict_keys_def map_of_eq_None_iff not_None_eq set_map)

lemma keys_map_of: "map_of d a = Some e \<Longrightarrow> a \<in> set (dict_keys d)"
  using map_of_keys[of d a] by blast

lemma in_one_loop:
  "x \<in> set (concat (map (\<lambda>a. case m a of Some e \<Rightarrow> [(a, f e)] | None \<Rightarrow> []) xs))
     \<longleftrightarrow> (\<exists>a e. a \<in> set xs \<and> m a = Some e \<and> x = (a, f e))"
proof (induction xs)
  case Nil
  then show ?case by simp
next
  case (Cons b xs)
  show ?case
  proof (cases "m b")
    case None
    with Cons show ?thesis by auto
  next
    case (Some e)
    with Cons show ?thesis by auto
  qed
qed

lemma in_both_loop:
  "x \<in> set (concat (map (\<lambda>a. case (mo a, mn a) of
                (Some eo, Some en) \<Rightarrow> if f eo \<noteq> f en then [(a, f eo, f en)] else []
              | _ \<Rightarrow> []) xs))
     \<longleftrightarrow> (\<exists>a eo en. a \<in> set xs \<and> mo a = Some eo \<and> mn a = Some en \<and> f eo \<noteq> f en
            \<and> x = (a, f eo, f en))"
proof (induction xs)
  case Nil
  then show ?case by simp
next
  case (Cons b xs)
  show ?case
  proof (cases "mo b")
    case None
    with Cons show ?thesis by auto
  next
    case so: (Some eo)
    show ?thesis
    proof (cases "mn b")
      case None
      with so Cons show ?thesis by auto
    next
      case (Some en)
      with so Cons show ?thesis by auto
    qed
  qed
qed

lemma set_order_set: "(\<And>xs. mset (it xs) = mset xs) \<Longrightarrow> set (it ys) = set ys"
  by (metis set_mset_mset)

text \<open>
  Claim C1. For every old and new snapshot map, and whatever the order in which the
  loops visit the sets, the identities of the entrants are the keys of the new map that
  are not keys of the old one, the identities of the exits are the keys of the old map
  that are not keys of the new one, and the rank changes are exactly the triples
  (identity, old rank, new rank) of the identities that both maps hold with different
  ranks. Entrants carry their new rank, exits the rank they had.
\<close>

theorem compare_snapshots_sets:
  assumes it: "\<And>xs. mset (it xs) = mset xs"
  shows "case compare_snapshots it old new of (rank_changes, new_entries, removed) \<Rightarrow>
      fst ` set new_entries = set (dict_keys new) - set (dict_keys old)
    \<and> fst ` set removed = set (dict_keys old) - set (dict_keys new)
    \<and> set rank_changes = {(a, e_rank eo, e_rank en) | a eo en.
          map_of old a = Some eo \<and> map_of new a = Some en \<and> e_rank eo \<noteq> e_rank en}
    \<and> set new_entries =
        {(a, e_rank en) | a en. a \<notin> set (dict_keys old) \<and> map_of new a = Some en}
    \<and> set removed =
        {(a, e_rank eo) | a eo. a \<notin> set (dict_keys new) \<and> map_of old a = Some eo}"
proof -
  have s: "set (it xs) = set xs" for xs
    using it by (rule set_order_set)
  define ne where "ne = concat (map (\<lambda>addr.
              case map_of new addr of Some en \<Rightarrow> [(addr, e_rank en)] | None \<Rightarrow> [])
            (it (set_minus (py_set (dict_keys new)) (py_set (dict_keys old)))))"
  define rm where "rm = concat (map (\<lambda>addr.
              case map_of old addr of Some eo \<Rightarrow> [(addr, e_rank eo)] | None \<Rightarrow> [])
            (it (set_minus (py_set (dict_keys old)) (py_set (dict_keys new)))))"
  define rc where "rc = concat (map (\<lambda>addr.
              case (map_of old addr, map_of new addr) of
                (Some eo, Some en) \<Rightarrow>
                  if e_rank eo \<noteq> e_rank en then [(addr, e_rank eo, e_rank en)] else []
              | _ \<Rightarrow> [])
            (it (set_and (py_set (dict_keys new)) (py_set (dict_keys old)))))"
  have cs: "compare_snapshots it old new = (rc, ne, rm)"
    by (simp add: compare_snapshots_def Let_def rc_def ne_def rm_def)
  have ne: "set ne =
      {(a, e_rank en) | a en. a \<notin> set (dict_keys old) \<and> map_of new a = Some en}"
  proof (rule set_eqI)
    fix x
    show "x \<in> set ne \<longleftrightarrow>
        x \<in> {(a, e_rank en) | a en. a \<notin> set (dict_keys old) \<and> map_of new a = Some en}"
      unfolding ne_def in_one_loop s set_minus_def py_set_def
      using map_of_keys[of new] by auto
  qed
  have rm: "set rm =
      {(a, e_rank eo) | a eo. a \<notin> set (dict_keys new) \<and> map_of old a = Some eo}"
  proof (rule set_eqI)
    fix x
    show "x \<in> set rm \<longleftrightarrow>
        x \<in> {(a, e_rank eo) | a eo. a \<notin> set (dict_keys new) \<and> map_of old a = Some eo}"
      unfolding rm_def in_one_loop s set_minus_def py_set_def
      using map_of_keys[of old] by auto
  qed
  have rc: "set rc = {(a, e_rank eo, e_rank en) | a eo en.
          map_of old a = Some eo \<and> map_of new a = Some en \<and> e_rank eo \<noteq> e_rank en}"
  proof (rule set_eqI)
    fix x
    show "x \<in> set rc \<longleftrightarrow> x \<in> {(a, e_rank eo, e_rank en) | a eo en.
          map_of old a = Some eo \<and> map_of new a = Some en \<and> e_rank eo \<noteq> e_rank en}"
      unfolding rc_def in_both_loop s set_and_def py_set_def
      using map_of_keys[of old] map_of_keys[of new] by auto
  qed
  have k1: "fst ` set ne = set (dict_keys new) - set (dict_keys old)"
    unfolding ne using map_of_keys[of new] by (force simp: image_iff dest: keys_map_of)
  have k2: "fst ` set rm = set (dict_keys old) - set (dict_keys new)"
    unfolding rm using map_of_keys[of old] by (force simp: image_iff dest: keys_map_of)
  show ?thesis
    unfolding cs prod.case using ne rm rc k1 k2 by blast
qed

theorem compare_snapshots_sets_witness:
  "(\<forall>xs :: string list. mset (rev xs) = mset xs)
   \<and> (case compare_snapshots rev scenario_old scenario_new of
        (rank_changes, new_entries, removed) \<Rightarrow>
          fst ` set new_entries = set (dict_keys scenario_new) - set (dict_keys scenario_old)
        \<and> fst ` set removed = set (dict_keys scenario_old) - set (dict_keys scenario_new)
        \<and> set rank_changes = {(a, e_rank eo, e_rank en) | a eo en.
              map_of scenario_old a = Some eo \<and> map_of scenario_new a = Some en
              \<and> e_rank eo \<noteq> e_rank en}
        \<and> set new_entries = {(a, e_rank en) | a en.
              a \<notin> set (dict_keys scenario_old) \<and> map_of scenario_new a = Some en}
        \<and> set removed = {(a, e_rank eo) | a eo.
              a \<notin> set (dict_keys scenario_new) \<and> map_of scenario_old a = Some eo})
   \<and> compare_snapshots rev scenario_old scenario_new
       = ([(''A'', 1, 2), (''B'', 2, 1)], [(''D'', 3)], [(''C'', 3)])"
proof -
  have h: "\<And>xs :: string list. mset (rev xs) = mset xs"
    by simp
  have v: "compare_snapshots rev scenario_old scenario_new
       = ([(''A'', 1, 2), (''B'', 2, 1)], [(''D'', 3)], [(''C'', 3)])"
    by code_simp
  have c: "case compare_snapshots rev scenario_old scenario_new of
        (rank_changes, new_entries, removed) \<Rightarrow>
          fst ` set new_entries = set (dict_keys scenario_new) - set (dict_keys scenario_old)
        \<and> fst ` set removed = set (dict_keys scenario_old) - set (dict_keys scenario_new)
        \<and> set rank_changes = {(a, e_rank eo, e_rank en) | a eo en.
              map_of scenario_old a = Some eo \<and> map_of scenario_new a = Some en
              \<and> e_rank eo \<noteq> e_rank en}
        \<and> set new_entries = {(a, e_rank en) | a en.
              a \<notin> set (dict_keys scenario_old) \<and> map_of scenario_new a = Some en}
        \<and> set removed = {(a, e_rank eo) | a eo.
              a \<notin> set (dict_keys scenario_new) \<and> map_of scenario_old a = Some eo}"
    by (rule compare_snapshots_sets [where it = rev and old = scenario_old and new = scenario_new,
          OF h])
  from c h v
  show ?thesis by (intro conjI allI)
qed

end
